theory Spec2Isabelle
  imports Complex_Main
begin

section \<open>JavaScript values used by server.js\<close>

text \<open>
  A JavaScript string is a sequence of UTF-16 code units. A code unit is modelled as a
  natural number, so that the zero-width characters U+200B..U+200D and the Unicode white
  space of \<^verbatim>\<open>\s\<close> can be told apart (an 8-bit \<^typ>\<open>char\<close> cannot). \<open>js\<close> turns an
  Isabelle string literal into code units.
\<close>

type_synonym jschar = nat
type_synonym jsstring = "jschar list"

definition js :: "string \<Rightarrow> jsstring" where
  "js s = map of_char s"

text \<open>
  A JavaScript number is NaN, an infinity or a finite value. Finite values are modelled as
  exact rationals: the rounding of IEEE doubles, overflow to Infinity and the sign of zero
  are not modelled.
\<close>

datatype jsnum = NaN | PInf | NInf | Fin rat

fun isNaN :: "jsnum \<Rightarrow> bool" where
  "isNaN NaN = True"
| "isNaN _ = False"

fun isFinite :: "jsnum \<Rightarrow> bool" where
  "isFinite (Fin _) = True"
| "isFinite _ = False"

text \<open>Truthiness of a number: \<open>0\<close> and \<open>NaN\<close> are falsy.\<close>

fun truthy_num :: "jsnum \<Rightarrow> bool" where
  "truthy_num NaN = False"
| "truthy_num (Fin r) = (r \<noteq> 0)"
| "truthy_num _ = True"

text \<open>The product of two numbers (\<open>Infinity * 0\<close> is \<open>NaN\<close>).\<close>

fun sign_inf :: "bool \<Rightarrow> jsnum" where
  "sign_inf positive = (if positive then PInf else NInf)"

fun jsmul :: "jsnum \<Rightarrow> jsnum \<Rightarrow> jsnum" where
  "jsmul NaN _ = NaN"
| "jsmul _ NaN = NaN"
| "jsmul (Fin a) (Fin b) = Fin (a * b)"
| "jsmul (Fin a) PInf = (if a = 0 then NaN else sign_inf (0 < a))"
| "jsmul (Fin a) NInf = (if a = 0 then NaN else sign_inf (a < 0))"
| "jsmul PInf (Fin b) = (if b = 0 then NaN else sign_inf (0 < b))"
| "jsmul NInf (Fin b) = (if b = 0 then NaN else sign_inf (b < 0))"
| "jsmul PInf PInf = PInf"
| "jsmul NInf NInf = PInf"
| "jsmul PInf NInf = NInf"
| "jsmul NInf PInf = NInf"

subsection \<open>Character classes\<close>

definition is_digit :: "jschar \<Rightarrow> bool" where
  "is_digit c = (48 \<le> c \<and> c \<le> 57)"

text \<open>
  The characters matched by \<^verbatim>\<open>\s\<close> and stripped by \<^verbatim>\<open>trim()\<close>: ECMAScript's
  WhiteSpace and LineTerminator (TAB, LF, VT, FF, CR, SP, NBSP, U+1680, U+2000..U+200A,
  U+2028, U+2029, U+202F, U+205F, U+3000 and U+FEFF).
\<close>

definition is_space :: "jschar \<Rightarrow> bool" where
  "is_space c =
     ((9 \<le> c \<and> c \<le> 13) \<or> c = 32 \<or> c = 160 \<or> c = 5760 \<or> (8192 \<le> c \<and> c \<le> 8202) \<or>
      c = 8232 \<or> c = 8233 \<or> c = 8239 \<or> c = 8287 \<or> c = 12288 \<or> c = 65279)"

text \<open>
  \<^verbatim>\<open>toUpperCase\<close> and \<^verbatim>\<open>toLowerCase\<close> on the ASCII letters; every other code unit is
  left as it is.
\<close>

definition upper_char :: "jschar \<Rightarrow> jschar" where
  "upper_char c = (if 97 \<le> c \<and> c \<le> 122 then c - 32 else c)"

definition lower_char :: "jschar \<Rightarrow> jschar" where
  "lower_char c = (if 65 \<le> c \<and> c \<le> 90 then c + 32 else c)"

definition toUpperCase_ascii :: "jsstring \<Rightarrow> jsstring" where
  "toUpperCase_ascii s = map upper_char s"

definition toLowerCase_ascii :: "jsstring \<Rightarrow> jsstring" where
  "toLowerCase_ascii s = map lower_char s"

subsection \<open>parseInt and parseFloat\<close>

definition digits_val :: "jsstring \<Rightarrow> nat" where
  "digits_val ds = foldl (\<lambda>a c. 10 * a + (c - 48)) 0 ds"

text \<open>An optional sign: whether it is a minus, and the rest of the text.\<close>

fun split_sign :: "jsstring \<Rightarrow> bool \<times> jsstring" where
  "split_sign [] = (False, [])"
| "split_sign (c # cs) =
     (if c = 45 then (True, cs) else if c = 43 then (False, cs) else (False, c # cs))"

text \<open>
  \<^verbatim>\<open>parseInt(s, 10)\<close>: leading white space and a sign are skipped, the longest run of
  decimal digits is read, and what follows is ignored; no digit gives \<open>NaN\<close>.
\<close>

definition parseInt :: "jsstring \<Rightarrow> jsnum" where
  "parseInt s =
     (let (neg, u) = split_sign (dropWhile is_space s);
          ds = takeWhile is_digit u
      in if ds = [] then NaN
         else Fin (if neg then - of_nat (digits_val ds) else of_nat (digits_val ds)))"

text \<open>The exponent part of a decimal literal (\<open>e\<close> or \<open>E\<close>, a sign, digits), 0 without one.\<close>

definition exponent_of :: "jsstring \<Rightarrow> int" where
  "exponent_of r =
     (case r of
        [] \<Rightarrow> 0
      | c # cs \<Rightarrow>
          if c = 101 \<or> c = 69 then
            (let (neg, u) = split_sign cs; ds = takeWhile is_digit u
             in if ds = [] then 0
                else if neg then - int (digits_val ds) else int (digits_val ds))
          else 0)"

definition pow10 :: "int \<Rightarrow> rat" where
  "pow10 e = (if 0 \<le> e then 10 ^ nat e else 1 / 10 ^ nat (- e))"

text \<open>
  \<^verbatim>\<open>parseFloat(s)\<close>: leading white space is skipped and the longest prefix that is a
  decimal literal (a sign, then \<open>Infinity\<close> or digits with an optional fraction and
  exponent) is read; without one the result is \<open>NaN\<close>.
\<close>

definition parseFloat :: "jsstring \<Rightarrow> jsnum" where
  "parseFloat s =
     (let (neg, u) = split_sign (dropWhile is_space s) in
      if take 8 u = js ''Infinity'' then sign_inf (\<not> neg)
      else
        let ip = takeWhile is_digit u;
            r1 = dropWhile is_digit u;
            dot = (r1 \<noteq> [] \<and> hd r1 = 46);
            fp = (if dot then takeWhile is_digit (tl r1) else []);
            r2 = (if dot then dropWhile is_digit (tl r1) else r1)
        in if ip = [] \<and> fp = [] then NaN
           else
             let v = of_nat (digits_val (ip @ fp)) / 10 ^ length fp * pow10 (exponent_of r2)
             in Fin (if neg then - v else v))"

section \<open>parseInstallString\<close>

text \<open>
  The characters that \<^verbatim>\<open>s.replace(/[^\dKMkmb\.]/g, '')\<close> keeps: digits, \<open>K\<close>, \<open>M\<close>,
  \<open>k\<close>, \<open>m\<close>, \<open>b\<close> and the dot.
\<close>

definition keep_char :: "jschar \<Rightarrow> bool" where
  "keep_char c = (is_digit c \<or> c = 75 \<or> c = 77 \<or> c = 107 \<or> c = 109 \<or> c = 98 \<or> c = 46)"

definition normalize_installs :: "jsstring \<Rightarrow> jsstring" where
  "normalize_installs s = toUpperCase_ascii (filter keep_char s)"

text \<open>
  \<open>None\<close> is \<open>null\<close>. \<open>!s\<close> holds of \<open>null\<close> and of the empty string. The kept characters
  are ASCII, so \<^verbatim>\<open>toUpperCase\<close> acts on them as \<open>toUpperCase_ascii\<close> does.
  \<^verbatim>\<open>replace('M', '')\<close> with a string pattern removes the first occurrence only.
\<close>

definition parseInstallString :: "jsstring option \<Rightarrow> jsnum option" where
  "parseInstallString s =
     (case s of
        None \<Rightarrow> None
      | Some str \<Rightarrow>
          if str = [] then None
          else
            let normalized = normalize_installs str in
            if 77 \<in> set normalized then
              Some (jsmul (parseFloat (remove1 77 normalized)) (Fin 1000000))
            else if 75 \<in> set normalized then
              Some (jsmul (parseFloat (remove1 75 normalized)) (Fin 1000))
            else
              let digits = filter (\<lambda>c. c \<noteq> 44 \<and> c \<noteq> 43) normalized;
                  n = parseInt digits
              in if isNaN n then None else Some n)"

text \<open>
  The installs parser in the words of the specification, for comparison: "strip all
  characters except digits, K/M/B (case-insensitive), and the dot, uppercase the result; if
  it contains M, parse the leading float and multiply by 1,000,000; else if it contains K,
  multiply the parsed leading float by 1,000; else strip remaining commas and plus signs and
  parse as an integer". The leading float of a text is what \<open>parseFloat\<close> reads at its
  start, so that of \<open>10M\<close> is 10 and that of \<open>1M5\<close> is 1.
\<close>

definition spec_keep_char :: "jschar \<Rightarrow> bool" where
  "spec_keep_char c =
     (is_digit c \<or> c = 75 \<or> c = 107 \<or> c = 77 \<or> c = 109 \<or> c = 66 \<or> c = 98 \<or> c = 46)"

definition parseInstalls_spec :: "jsstring option \<Rightarrow> jsnum option" where
  "parseInstalls_spec s =
     (case s of
        None \<Rightarrow> None
      | Some str \<Rightarrow>
          if str = [] then None
          else
            let t = toUpperCase_ascii (filter spec_keep_char str) in
            if 77 \<in> set t then Some (jsmul (parseFloat t) (Fin 1000000))
            else if 75 \<in> set t then Some (jsmul (parseFloat t) (Fin 1000))
            else
              (case parseInt (filter (\<lambda>c. c \<noteq> 44 \<and> c \<noteq> 43) t) of
                 NaN \<Rightarrow> None
               | n \<Rightarrow> Some n))"

section \<open>cleanText\<close>

text \<open>
  \<^verbatim>\<open>replace(/\s+/g, ' ')\<close>: every maximal run of white space becomes one space (code
  unit 32).
\<close>

function collapse_ws :: "jsstring \<Rightarrow> jsstring" where
  "collapse_ws [] = []"
| "collapse_ws (c # cs) =
     (if is_space c then 32 # collapse_ws (dropWhile is_space cs) else c # collapse_ws cs)"
  by pat_completeness auto
termination
  by (relation "measure length") (auto simp: length_dropWhile_le le_imp_less_Suc)

text \<open>The class of U+200B..U+200D and U+FEFF, removed by the second \<^verbatim>\<open>replace\<close>.\<close>

definition is_zero_width :: "jschar \<Rightarrow> bool" where
  "is_zero_width c = ((8203 \<le> c \<and> c \<le> 8205) \<or> c = 65279)"

definition trim :: "jsstring \<Rightarrow> jsstring" where
  "trim s = rev (dropWhile is_space (rev (dropWhile is_space s)))"

definition cleanText :: "jsstring option \<Rightarrow> jsstring" where
  "cleanText s =
     (case s of
        None \<Rightarrow> []
      | Some str \<Rightarrow>
          if str = [] then []
          else trim (filter (\<lambda>c. \<not> is_zero_width c) (collapse_ws str)))"

text \<open>
  A string is white-space normal when each white-space character in it is a single space
  with no white space after it.
\<close>

fun ws_normal :: "jsstring \<Rightarrow> bool" where
  "ws_normal [] = True"
| "ws_normal [c] = (is_space c \<longrightarrow> c = 32)"
| "ws_normal (c # d # cs) = ((is_space c \<longrightarrow> c = 32 \<and> \<not> is_space d) \<and> ws_normal (d # cs))"

section \<open>Competitor records\<close>

record competitor =
  package :: jsstring
  title :: jsstring
  description :: jsstring
  installs :: "jsnum option"
  rating :: "jsnum option"
  developer :: "jsstring option"

text \<open>
  What the detail page gave before the final cleanup of a record: \<open>meta.title\<close>,
  \<open>description\<close>, \<open>installs\<close>, \<open>rating\<close> (each a string or \<open>null\<close>) and
  \<open>meta.developer\<close>.
\<close>

record raw_detail =
  meta_title :: "jsstring option"
  raw_description :: "jsstring option"
  raw_installs :: "jsstring option"
  raw_rating :: "jsstring option"
  meta_developer :: "jsstring option"

text \<open>A string or \<open>null\<close> is truthy when it is a non-empty string.\<close>

fun truthy_str :: "jsstring option \<Rightarrow> bool" where
  "truthy_str None = False"
| "truthy_str (Some str) = (str \<noteq> [])"

text \<open>\<open>x || null\<close> on a number or \<open>null\<close>, and on a string or \<open>null\<close>.\<close>

fun num_or_null :: "jsnum option \<Rightarrow> jsnum option" where
  "num_or_null None = None"
| "num_or_null (Some n) = (if truthy_num n then Some n else None)"

fun str_or_null :: "jsstring option \<Rightarrow> jsstring option" where
  "str_or_null x = (if truthy_str x then x else None)"

text \<open>The final cleanup and the record pushed for a candidate whose detail page was read.\<close>

definition final_title :: "jsstring option \<Rightarrow> jsstring option" where
  "final_title mt = (if truthy_str mt then Some (cleanText mt) else None)"

definition final_rating :: "jsstring option \<Rightarrow> jsnum option" where
  "final_rating r =
     (case r of
        None \<Rightarrow> None
      | Some str \<Rightarrow> if str = [] then None else Some (parseFloat str))"

definition make_record :: "jsstring \<Rightarrow> raw_detail \<Rightarrow> competitor" where
  "make_record pkg d =
     \<lparr> package = pkg,
       title = (case final_title (meta_title d) of
                  None \<Rightarrow> pkg
                | Some t \<Rightarrow> if t = [] then pkg else t),
       description = (if truthy_str (raw_description d) then cleanText (raw_description d) else []),
       installs = num_or_null (parseInstallString (raw_installs d)),
       rating = final_rating (raw_rating d),
       developer = str_or_null (meta_developer d) \<rparr>"

text \<open>The record pushed by the \<open>catch\<close> block of the detail loop.\<close>

definition degraded_record :: "jsstring \<Rightarrow> competitor" where
  "degraded_record pkg =
     \<lparr> package = pkg, title = pkg, description = [], installs = None, rating = None,
       developer = None \<rparr>"

section \<open>Candidate extraction\<close>

text \<open>The literal \<^verbatim>\<open>/store/apps/details?id=\<close> of both regular expressions (23 code units).\<close>

definition details_prefix :: jsstring where
  "details_prefix = js ''/store/apps/details?id=''"

text \<open>
  \<^verbatim>\<open>href.match(/\/store\/apps\/details\?id=([^&/]+)/)\<close>: the group of the leftmost
  match, the longest run of characters other than \<open>&\<close> and \<open>/\<close> after the literal; the
  run must not be empty.
\<close>

fun match_href :: "jsstring \<Rightarrow> jsstring option" where
  "match_href [] = None"
| "match_href (c # cs) =
     (let cap = takeWhile (\<lambda>x. x \<noteq> 38 \<and> x \<noteq> 47) (drop 23 (c # cs))
      in if take 23 (c # cs) = details_prefix \<and> cap \<noteq> [] then Some cap else match_href cs)"

text \<open>The class \<^verbatim>\<open>[\w\.]\<close>: ASCII letters, digits, the underscore and the dot.\<close>

definition is_word_dot :: "jschar \<Rightarrow> bool" where
  "is_word_dot c =
     (is_digit c \<or> (65 \<le> c \<and> c \<le> 90) \<or> (97 \<le> c \<and> c \<le> 122) \<or> c = 95 \<or> c = 46)"

text \<open>
  The groups of the successive matches of the global regular expression
  \<^verbatim>\<open>/\/store\/apps\/details\?id=([\w\.]+)/g\<close>, as \<^verbatim>\<open>regex.exec\<close> returns them: the
  next search starts where the last match ended.
\<close>

function scan_ids :: "jsstring \<Rightarrow> jsstring list" where
  "scan_ids [] = []"
| "scan_ids (c # cs) =
     (let cap = takeWhile is_word_dot (drop 23 (c # cs))
      in if take 23 (c # cs) = details_prefix \<and> cap \<noteq> []
         then cap # scan_ids (drop (23 + length cap) (c # cs))
         else scan_ids cs)"
  by pat_completeness auto
termination
  by (relation "measure length") auto

text \<open>
  \<open>pkgSet\<close> is a JavaScript \<open>Set\<close>, which iterates in insertion order: a list without
  duplicates, \<open>add\<close> appending an element that is not yet in it.
\<close>

definition set_add :: "'a list \<Rightarrow> 'a \<Rightarrow> 'a list" where
  "set_add xs x = (if x \<in> set xs then xs else xs @ [x])"

text \<open>
  The scan of the anchors that cheerio selected, given by their \<open>href\<close> attributes in
  document order (\<open>None\<close> is \<open>undefined\<close>). The HTML parser itself is not modelled.
\<close>

fun anchor_pass :: "nat \<Rightarrow> jsstring option list \<Rightarrow> jsstring list \<Rightarrow> jsstring list" where
  "anchor_pass limit [] pkgSet = pkgSet"
| "anchor_pass limit (href # rest) pkgSet =
     anchor_pass limit rest
       (if limit \<le> length pkgSet then pkgSet
        else if truthy_str href then
          (case match_href (the href) of
             None \<Rightarrow> pkgSet
           | Some m1 \<Rightarrow> if m1 \<noteq> [] then set_add pkgSet m1 else pkgSet)
        else pkgSet)"

text \<open>The \<open>while\<close> loop over the matches of the raw markup.\<close>

fun regex_pass :: "nat \<Rightarrow> jsstring list \<Rightarrow> jsstring list \<Rightarrow> jsstring list" where
  "regex_pass limit [] pkgSet = pkgSet"
| "regex_pass limit (m1 # rest) pkgSet =
     (if length pkgSet < limit then regex_pass limit rest (set_add pkgSet m1) else pkgSet)"

definition extract_packages :: "nat \<Rightarrow> jsstring option list \<Rightarrow> jsstring \<Rightarrow> jsstring list" where
  "extract_packages limit hrefs searchHtml =
     (let pkgSet = anchor_pass limit hrefs [];
          pkgSet' = (if length pkgSet < limit then regex_pass limit (scan_ids searchHtml) pkgSet
                     else pkgSet)
      in take limit pkgSet')"

text \<open>The identifier that the anchor scan reads from one \<open>href\<close>, if any.\<close>

definition href_id :: "jsstring option \<Rightarrow> jsstring option" where
  "href_id href = (if truthy_str href then match_href (the href) else None)"

text \<open>One step of either scan: nothing is added once the set holds \<open>limit\<close> elements.\<close>

definition lim_add :: "nat \<Rightarrow> 'a list \<Rightarrow> 'a \<Rightarrow> 'a list" where
  "lim_add limit xs x = (if limit \<le> length xs then xs else set_add xs x)"

section \<open>The detail loop\<close>

text \<open>
  What the \<open>try\<close> block of one iteration does, as far as the list of results can tell:
  a step before \<open>results.push\<close> throws; or the record is pushed and the page closes; or the
  record is pushed and \<open>detailPage.close()\<close> then throws. In the first and the last case
  the \<open>catch\<close> block runs.
\<close>

datatype detail_outcome =
  ExtractionThrows
| Extracted raw_detail
| ExtractedCloseThrows raw_detail

fun process_candidate :: "jsstring \<Rightarrow> detail_outcome \<Rightarrow> competitor list" where
  "process_candidate pkg ExtractionThrows = [degraded_record pkg]"
| "process_candidate pkg (Extracted d) = [make_record pkg d]"
| "process_candidate pkg (ExtractedCloseThrows d) = [make_record pkg d, degraded_record pkg]"

text \<open>The \<open>for\<close> loop over \<open>packages\<close>; \<open>fetch\<close> gives the outcome for each package.\<close>

fun detail_loop ::
  "(jsstring \<Rightarrow> detail_outcome) \<Rightarrow> jsstring list \<Rightarrow> competitor list \<Rightarrow> competitor list" where
  "detail_loop fetch [] results = results"
| "detail_loop fetch (pkg # rest) results =
     detail_loop fetch rest (results @ process_candidate pkg (fetch pkg))"

text \<open>Whether the page of a candidate closed without throwing after its record was pushed.\<close>

fun closes :: "detail_outcome \<Rightarrow> bool" where
  "closes (ExtractedCloseThrows d) = False"
| "closes _ = True"

text \<open>The \<open>competitors\<close> of the response: \<open>results.map((r, i) => ({ rank: i + 1, ... }))\<close>.\<close>

record ranked =
  rank :: nat
  r_package :: jsstring
  r_title :: jsstring
  r_rating :: "jsnum option"
  r_installs :: "jsnum option"
  r_developer :: "jsstring option"

definition competitors :: "competitor list \<Rightarrow> ranked list" where
  "competitors results =
     map (\<lambda>(i, r). \<lparr> rank = i + 1, r_package = package r, r_title = title r,
                     r_rating = rating r, r_installs = installs r,
                     r_developer = developer r \<rparr>)
       (enumerate 0 results)"

section \<open>Keyword frequencies\<close>

definition TITLE_BOOST :: nat where
  "TITLE_BOOST = 3"

text \<open>
  \<open>freqMap\<close> is a JavaScript \<open>Map\<close> from tokens to scores, in insertion order. The scores
  are sums of 1, 3 and 6. \<open>freq_get\<close> is \<open>freqMap.get(k) || 0\<close>.
\<close>

type_synonym freqMap = "(jsstring \<times> nat) list"

definition freq_get :: "freqMap \<Rightarrow> jsstring \<Rightarrow> nat" where
  "freq_get m k = (case map_of m k of None \<Rightarrow> 0 | Some v \<Rightarrow> v)"

fun freq_set :: "freqMap \<Rightarrow> jsstring \<Rightarrow> nat \<Rightarrow> freqMap" where
  "freq_set [] k v = [(k, v)]"
| "freq_set ((k', v') # m) k v = (if k' = k then (k, v) # m else (k', v') # freq_set m k v)"

definition freq_add :: "freqMap \<Rightarrow> jsstring \<Rightarrow> nat \<Rightarrow> freqMap" where
  "freq_add m k w = freq_set m k (freq_get m k + w)"

text \<open>
  \<^verbatim>\<open>s.split(/\s+/)\<close>: the pieces between the maximal runs of white space; a run at the
  start or at the end leaves an empty piece there. \<open>in_run\<close> holds right after a
  white-space character, \<open>cur\<close> is the current piece, reversed.
\<close>

fun split_go :: "bool \<Rightarrow> jsstring \<Rightarrow> jsstring \<Rightarrow> jsstring list" where
  "split_go in_run cur [] = [rev cur]"
| "split_go in_run cur (c # cs) =
     (if is_space c then
        (if in_run then split_go True cur cs else rev cur # split_go True [] cs)
      else split_go False (c # cur) cs)"

definition split_ws :: "jsstring \<Rightarrow> jsstring list" where
  "split_ws s = split_go False [] s"

text \<open>
  The tokens of the seed keyword:
  \<^verbatim>\<open>keyword.split(/\s+/).map(x => x.trim().toLowerCase()).filter(Boolean)\<close>.
  \<^verbatim>\<open>toLowerCase\<close> follows the Unicode case mapping; it is the parameter \<open>lc\<close>.
\<close>

definition baseTokens :: "(jsstring \<Rightarrow> jsstring) \<Rightarrow> jsstring \<Rightarrow> jsstring list" where
  "baseTokens lc keyword = filter (\<lambda>x. x \<noteq> []) (map (\<lambda>x. lc (trim x)) (split_ws keyword))"

definition stopwords :: "jsstring list" where
  "stopwords = map js
     [''the'', ''and'', ''for'', ''with'', ''from'', ''this'', ''that'', ''have'', ''your'',
      ''more'', ''what'', ''when'', ''where'', ''which'', ''will'', ''app'', ''apps'',
      ''android'', ''mobile'', ''free'', ''pro'', ''plus'', ''-'', ''a'', ''an'', ''in'',
      ''on'', ''of'', ''to'', ''by'', ''is'', ''are'']"

text \<open>
  \<open>tokenize\<close>: lowercase, curly quotes (U+2018, U+2019, U+201C, U+201D) to an apostrophe,
  every character outside \<^verbatim>\<open>[a-z0-9\s']\<close> to a space, split on white space, trim, drop
  the empty pieces.
\<close>

definition is_curly_quote :: "jschar \<Rightarrow> bool" where
  "is_curly_quote c = (c = 8216 \<or> c = 8217 \<or> c = 8220 \<or> c = 8221)"

definition is_token_char :: "jschar \<Rightarrow> bool" where
  "is_token_char c = ((97 \<le> c \<and> c \<le> 122) \<or> is_digit c \<or> is_space c \<or> c = 39)"

definition tokenize :: "(jsstring \<Rightarrow> jsstring) \<Rightarrow> jsstring \<Rightarrow> jsstring list" where
  "tokenize lc s =
     (if s = [] then []
      else
        filter (\<lambda>x. x \<noteq> [])
          (map trim
            (split_ws
              (map (\<lambda>c. if is_token_char c then c else 32)
                (map (\<lambda>c. if is_curly_quote c then 39 else c) (lc s))))))"

text \<open>One of the two inner loops: the tokens of a title or description, each with weight \<open>w\<close>.\<close>

fun add_tokens :: "nat \<Rightarrow> jsstring list \<Rightarrow> freqMap \<Rightarrow> freqMap" where
  "add_tokens w [] freqMap = freqMap"
| "add_tokens w (tk # rest) freqMap =
     add_tokens w rest
       (if length tk < 3 \<or> tk \<in> set stopwords then freqMap else freq_add freqMap tk w)"

fun aggregate :: "(jsstring \<Rightarrow> jsstring) \<Rightarrow> competitor list \<Rightarrow> freqMap \<Rightarrow> freqMap" where
  "aggregate lc [] freqMap = freqMap"
| "aggregate lc (r # rest) freqMap =
     aggregate lc rest
       (add_tokens 1 (tokenize lc (description r))
         (add_tokens TITLE_BOOST (tokenize lc (title r)) freqMap))"

text \<open>The loop that adds the tokens of the keyword itself.\<close>

fun seed_boost :: "jsstring list \<Rightarrow> freqMap \<Rightarrow> freqMap" where
  "seed_boost [] freqMap = freqMap"
| "seed_boost (t # rest) freqMap =
     seed_boost rest (if 3 \<le> length t then freq_add freqMap t (TITLE_BOOST * 2) else freqMap)"

definition frequency_map ::
  "(jsstring \<Rightarrow> jsstring) \<Rightarrow> jsstring \<Rightarrow> competitor list \<Rightarrow> freqMap" where
  "frequency_map lc keyword results =
     seed_boost (baseTokens lc keyword) (aggregate lc results [])"

section \<open>Difficulty\<close>

text \<open>Arithmetic on numbers: \<open>+\<close>, \<open>/\<close>, \<open>\<le>\<close>, \<open>Math.min\<close>, \<open>Math.max\<close>, \<open>Math.round\<close>.\<close>

fun jsadd :: "jsnum \<Rightarrow> jsnum \<Rightarrow> jsnum" where
  "jsadd NaN _ = NaN"
| "jsadd _ NaN = NaN"
| "jsadd (Fin a) (Fin b) = Fin (a + b)"
| "jsadd PInf NInf = NaN"
| "jsadd NInf PInf = NaN"
| "jsadd PInf _ = PInf"
| "jsadd _ PInf = PInf"
| "jsadd NInf _ = NInf"
| "jsadd _ NInf = NInf"

fun jsdiv :: "jsnum \<Rightarrow> jsnum \<Rightarrow> jsnum" where
  "jsdiv NaN _ = NaN"
| "jsdiv _ NaN = NaN"
| "jsdiv (Fin a) (Fin b) =
     (if b = 0 then (if a = 0 then NaN else sign_inf (0 < a)) else Fin (a / b))"
| "jsdiv (Fin a) _ = Fin 0"
| "jsdiv PInf (Fin b) = sign_inf (0 \<le> b)"
| "jsdiv NInf (Fin b) = sign_inf (b < 0)"
| "jsdiv _ _ = NaN"

fun jsle :: "jsnum \<Rightarrow> jsnum \<Rightarrow> bool" where
  "jsle NaN _ = False"
| "jsle _ NaN = False"
| "jsle NInf _ = True"
| "jsle _ PInf = True"
| "jsle (Fin a) (Fin b) = (a \<le> b)"
| "jsle _ _ = False"

fun jsmin :: "jsnum \<Rightarrow> jsnum \<Rightarrow> jsnum" where
  "jsmin NaN _ = NaN"
| "jsmin _ NaN = NaN"
| "jsmin a b = (if jsle a b then a else b)"

fun jsmax :: "jsnum \<Rightarrow> jsnum \<Rightarrow> jsnum" where
  "jsmax NaN _ = NaN"
| "jsmax _ NaN = NaN"
| "jsmax a b = (if jsle a b then b else a)"

text \<open>\<open>Math.round\<close> rounds to the nearest integer, a tie towards positive infinity.\<close>

fun jsround :: "jsnum \<Rightarrow> jsnum" where
  "jsround (Fin r) = Fin (of_int \<lfloor>r + 1 / 2\<rfloor>)"
| "jsround x = x"

text \<open>The difficulty of one suggestion with score \<open>score\<close>, lines 285 to 289.\<close>

definition difficulty_of :: "jsnum \<Rightarrow> jsnum \<Rightarrow> jsnum" where
  "difficulty_of avgInstalls score =
     (let scale = jsmax (Fin 1) (jsdiv avgInstalls (Fin 100000));
          difficultyRaw = jsdiv (jsdiv avgInstalls (jsadd (Fin 1) score)) (jsmax (Fin 1) scale);
          difficulty = jsround (jsmin (Fin 100) difficultyRaw)
      in if \<not> isFinite difficulty \<or> jsle difficulty (Fin 0)
         then jsmin (Fin 100) (jsmax (Fin 1) (jsround (jsdiv (Fin 50) (jsadd (Fin 1) score))))
         else difficulty)"

section \<open>The suggestion endpoint\<close>

subsection \<open>JSON.parse\<close>

text \<open>
  A parsed JSON value. The members of an object are kept in the order of the text; a
  later member with the same key takes precedence.
\<close>

datatype json =
  JNull
| JBool bool
| JNum jsnum
| JStr jsstring
| JArr "json list"
| JObj "(jsstring \<times> json) list"

datatype tok = TLBrack | TRBrack | TLBrace | TRBrace | TComma | TColon | TLit json

definition is_json_ws :: "jschar \<Rightarrow> bool" where
  "is_json_ws c = (c = 32 \<or> c = 9 \<or> c = 10 \<or> c = 13)"

definition hex_val :: "jschar \<Rightarrow> nat option" where
  "hex_val c =
     (if is_digit c then Some (c - 48)
      else if 97 \<le> c \<and> c \<le> 102 then Some (c - 87)
      else if 65 \<le> c \<and> c \<le> 70 then Some (c - 55)
      else None)"

definition hex4 :: "jsstring \<Rightarrow> jschar option" where
  "hex4 s =
     (case map hex_val s of
        [Some a, Some b, Some c, Some d] \<Rightarrow> Some (((a * 16 + b) * 16 + c) * 16 + d)
      | _ \<Rightarrow> None)"

text \<open>
  The character of a one-letter escape: the quote, the backslash, the slash, and \<open>b\<close>,
  \<open>f\<close>, \<open>n\<close>, \<open>r\<close>, \<open>t\<close>.
\<close>

definition unescape :: "jschar \<Rightarrow> jschar option" where
  "unescape e =
     (if e = 34 \<or> e = 92 \<or> e = 47 then Some e
      else if e = 98 then Some 8
      else if e = 102 then Some 12
      else if e = 110 then Some 10
      else if e = 114 then Some 13
      else if e = 116 then Some 9
      else None)"

text \<open>
  A string literal after its opening quote: the string, and the number of code units read,
  the closing quote included. Control characters below U+0020 are not allowed.
\<close>

function lex_string :: "jsstring \<Rightarrow> (jsstring \<times> nat) option" where
  "lex_string [] = None"
| "lex_string (c # cs) =
     (if c = 34 then Some ([], 1)
      else if c = 92 then
        (case cs of
           [] \<Rightarrow> None
         | e # es \<Rightarrow>
             if e = 117 then
               (case hex4 (take 4 es) of
                  None \<Rightarrow> None
                | Some u \<Rightarrow>
                    (case lex_string (drop 4 es) of
                       None \<Rightarrow> None
                     | Some (str, n) \<Rightarrow> Some (u # str, n + 6)))
             else
               (case unescape e of
                  None \<Rightarrow> None
                | Some u \<Rightarrow>
                    (case lex_string es of
                       None \<Rightarrow> None
                     | Some (str, n) \<Rightarrow> Some (u # str, n + 2))))
      else if c < 32 then None
      else
        (case lex_string cs of
           None \<Rightarrow> None
         | Some (str, n) \<Rightarrow> Some (c # str, n + 1)))"
  by pat_completeness auto
termination
  by (relation "measure length") auto

text \<open>
  A number literal (a minus sign, \<open>0\<close> or digits not starting with \<open>0\<close>, an optional
  fraction, an optional exponent): its value and its length.
\<close>

definition exponent_lexeme :: "jsstring \<Rightarrow> jsstring" where
  "exponent_lexeme r =
     (case r of
        [] \<Rightarrow> []
      | c # cs \<Rightarrow>
          if c = 101 \<or> c = 69 then
            (let sg = (case cs of [] \<Rightarrow> [] | d # ds \<Rightarrow> if d = 43 \<or> d = 45 then [d] else []);
                 ds = takeWhile is_digit (drop (length sg) cs)
             in if ds = [] then [] else c # sg @ ds)
          else [])"

definition lex_number :: "jsstring \<Rightarrow> (jsnum \<times> nat) option" where
  "lex_number s =
     (let sg = (case s of [] \<Rightarrow> [] | c # cs \<Rightarrow> if c = 45 then [c] else []);
          r0 = drop (length sg) s;
          ip = (case r0 of [] \<Rightarrow> [] | c # cs \<Rightarrow> if c = 48 then [c] else takeWhile is_digit r0)
      in if ip = [] then None
         else
           let r1 = drop (length ip) r0;
               fp = (case r1 of [] \<Rightarrow> [] | c # cs \<Rightarrow> if c = 46 then takeWhile is_digit cs else []);
               frac = (if fp = [] then [] else 46 # fp);
               ex = exponent_lexeme (drop (length frac) r1);
               lexeme = sg @ ip @ frac @ ex
           in Some (parseFloat lexeme, length lexeme))"

text \<open>
  The tokens of a JSON text, \<open>None\<close> when a character starts no token. A literal of
  \<open>n\<close> code units whose first is \<open>c\<close> leaves \<open>drop (n - 1) cs\<close>.
\<close>

function lex :: "jsstring \<Rightarrow> tok list option" where
  "lex [] = Some []"
| "lex (c # cs) =
     (if is_json_ws c then lex cs
      else if c = 91 then map_option (Cons TLBrack) (lex cs)
      else if c = 93 then map_option (Cons TRBrack) (lex cs)
      else if c = 123 then map_option (Cons TLBrace) (lex cs)
      else if c = 125 then map_option (Cons TRBrace) (lex cs)
      else if c = 44 then map_option (Cons TComma) (lex cs)
      else if c = 58 then map_option (Cons TColon) (lex cs)
      else if c = 34 then
        (case lex_string cs of
           None \<Rightarrow> None
         | Some (str, n) \<Rightarrow> map_option (Cons (TLit (JStr str))) (lex (drop n cs)))
      else if c = 45 \<or> is_digit c then
        (case lex_number (c # cs) of
           None \<Rightarrow> None
         | Some (v, n) \<Rightarrow> map_option (Cons (TLit (JNum v))) (lex (drop (n - 1) cs)))
      else if take 4 (c # cs) = js ''true'' then
        map_option (Cons (TLit (JBool True))) (lex (drop 3 cs))
      else if take 5 (c # cs) = js ''false'' then
        map_option (Cons (TLit (JBool False))) (lex (drop 4 cs))
      else if take 4 (c # cs) = js ''null'' then
        map_option (Cons (TLit JNull)) (lex (drop 3 cs))
      else None)"
  by pat_completeness auto
termination
  by (relation "measure length") auto

text \<open>
  The parser is a stack machine over the tokens. A frame is an open array with its
  elements so far, or an open object with its members so far and the key that waits for
  its value (both lists reversed).
\<close>

datatype frame = FArr "json list" | FObj "(jsstring \<times> json) list" "jsstring option"

datatype pmode =
  WantValue
| WantValueOrEnd
| WantKeyOrEnd
| WantKey
| WantColon
| AfterValue
| Finished json

type_synonym pstate = "pmode \<times> frame list"

fun push_value :: "json \<Rightarrow> frame list \<Rightarrow> pstate option" where
  "push_value v [] = Some (Finished v, [])"
| "push_value v (FArr es # st) = Some (AfterValue, FArr (v # es) # st)"
| "push_value v (FObj ms (Some k) # st) = Some (AfterValue, FObj ((k, v) # ms) None # st)"
| "push_value v (FObj ms None # st) = None"

definition start_value :: "tok \<Rightarrow> frame list \<Rightarrow> pstate option" where
  "start_value t st =
     (case t of
        TLit v \<Rightarrow> push_value v st
      | TLBrack \<Rightarrow> Some (WantValueOrEnd, FArr [] # st)
      | TLBrace \<Rightarrow> Some (WantKeyOrEnd, FObj [] None # st)
      | _ \<Rightarrow> None)"

definition close_array :: "frame list \<Rightarrow> pstate option" where
  "close_array st = (case st of FArr es # rest \<Rightarrow> push_value (JArr (rev es)) rest | _ \<Rightarrow> None)"

definition close_object :: "frame list \<Rightarrow> pstate option" where
  "close_object st =
     (case st of FObj ms None # rest \<Rightarrow> push_value (JObj (rev ms)) rest | _ \<Rightarrow> None)"

definition set_key :: "tok \<Rightarrow> frame list \<Rightarrow> pstate option" where
  "set_key t st =
     (case t of
        TLit (JStr key) \<Rightarrow>
          (case st of
             FObj ms None # rest \<Rightarrow> Some (WantColon, FObj ms (Some key) # rest)
           | _ \<Rightarrow> None)
      | _ \<Rightarrow> None)"

definition pstep :: "pstate \<Rightarrow> tok \<Rightarrow> pstate option" where
  "pstep s t =
     (case fst s of
        WantValue \<Rightarrow> start_value t (snd s)
      | WantValueOrEnd \<Rightarrow>
          (case t of TRBrack \<Rightarrow> close_array (snd s) | _ \<Rightarrow> start_value t (snd s))
      | WantKeyOrEnd \<Rightarrow>
          (case t of TRBrace \<Rightarrow> close_object (snd s) | _ \<Rightarrow> set_key t (snd s))
      | WantKey \<Rightarrow> set_key t (snd s)
      | WantColon \<Rightarrow> (case t of TColon \<Rightarrow> Some (WantValue, snd s) | _ \<Rightarrow> None)
      | AfterValue \<Rightarrow>
          (case t of
             TComma \<Rightarrow>
               (case snd s of
                  FArr es # rest \<Rightarrow> Some (WantValue, snd s)
                | FObj ms k # rest \<Rightarrow> Some (WantKey, snd s)
                | [] \<Rightarrow> None)
           | TRBrack \<Rightarrow> close_array (snd s)
           | TRBrace \<Rightarrow> close_object (snd s)
           | _ \<Rightarrow> None)
      | Finished v \<Rightarrow> None)"

fun run_tokens :: "pstate \<Rightarrow> tok list \<Rightarrow> pstate option" where
  "run_tokens s [] = Some s"
| "run_tokens s (t # ts) = (case pstep s t of None \<Rightarrow> None | Some s' \<Rightarrow> run_tokens s' ts)"

text \<open>\<open>JSON.parse\<close>: \<open>None\<close> stands for the \<open>SyntaxError\<close> it throws.\<close>

definition JSON_parse :: "jsstring \<Rightarrow> json option" where
  "JSON_parse s =
     (case lex s of
        None \<Rightarrow> None
      | Some toks \<Rightarrow>
          (case run_tokens (WantValue, []) toks of
             Some (Finished v, st) \<Rightarrow> Some v
           | _ \<Rightarrow> None))"

subsection \<open>The fallback regular expression\<close>

text \<open>
  \<^verbatim>\<open>txt.match(/\[".*?",\s*(\[[^\]]+\])/)\<close>. \<open>group_at\<close> matches what follows the lazy
  \<^verbatim>\<open>.*?\<close>: a quote and a comma, white space, and the group, an opening bracket, a
  non-empty run of characters other than the closing bracket, and a closing bracket.
  The dot matches no line terminator.
\<close>

definition is_line_terminator :: "jschar \<Rightarrow> bool" where
  "is_line_terminator c = (c = 10 \<or> c = 13 \<or> c = 8232 \<or> c = 8233)"

definition group_at :: "jsstring \<Rightarrow> jsstring option" where
  "group_at r =
     (if take 2 r = [34, 44] then
        (case dropWhile is_space (drop 2 r) of
           [] \<Rightarrow> None
         | c # cs \<Rightarrow>
             if c = 91 then
               (let body = takeWhile (\<lambda>x. x \<noteq> 93) cs
                in if body \<noteq> [] \<and> drop (length body) cs \<noteq> [] then Some (91 # body @ [93])
                   else None)
             else None)
      else None)"

fun lazy_dots :: "jsstring \<Rightarrow> jsstring option" where
  "lazy_dots [] = None"
| "lazy_dots (c # cs) =
     (case group_at (c # cs) of
        Some g \<Rightarrow> Some g
      | None \<Rightarrow> if is_line_terminator c then None else lazy_dots cs)"

text \<open>The group \<open>m[1]\<close> of the leftmost match, \<open>None\<close> when there is no match.\<close>

fun suggest_match :: "jsstring \<Rightarrow> jsstring option" where
  "suggest_match [] = None"
| "suggest_match (c # cs) =
     (if c = 91 \<and> take 1 cs = [34] then
        (case lazy_dots (drop 1 cs) of
           Some g \<Rightarrow> Some g
         | None \<Rightarrow> suggest_match cs)
      else suggest_match cs)"

subsection \<open>The response\<close>

text \<open>
  What the handler answers for the text of the suggestion source: the suggestions of
  \<open>res.json\<close>, or the status 500 of the outer \<open>catch\<close>.
\<close>

datatype suggest_response = Suggestions json | SuggestFailed

text \<open>
  \<open>Array.isArray(data[1]) ? data[1] : []\<close>; \<open>None\<close> when \<open>data[1]\<close> throws, which it
  does on \<open>null\<close>.
\<close>

definition second_or_empty :: "json \<Rightarrow> json option" where
  "second_or_empty data =
     (case data of
        JNull \<Rightarrow> None
      | JArr xs \<Rightarrow> Some (case drop 1 xs of JArr ys # rest \<Rightarrow> JArr ys | _ \<Rightarrow> JArr [])
      | JObj ms \<Rightarrow>
          Some (case map_of (rev ms) (js ''1'') of Some (JArr ys) \<Rightarrow> JArr ys | _ \<Rightarrow> JArr [])
      | _ \<Rightarrow> Some (JArr []))"

text \<open>The inner \<open>catch\<close> block; the \<open>JSON.parse\<close> in it is not guarded.\<close>

definition suggest_fallback :: "jsstring \<Rightarrow> suggest_response" where
  "suggest_fallback txt =
     (case suggest_match txt of
        None \<Rightarrow> Suggestions (JArr [])
      | Some m1 \<Rightarrow>
          (case JSON_parse m1 of
             None \<Rightarrow> SuggestFailed
           | Some v \<Rightarrow> Suggestions v))"

definition suggest_of_text :: "jsstring \<Rightarrow> suggest_response" where
  "suggest_of_text txt =
     (case JSON_parse txt of
        None \<Rightarrow> suggest_fallback txt
      | Some data \<Rightarrow>
          (case second_or_empty data of
             None \<Rightarrow> suggest_fallback txt
           | Some sg \<Rightarrow> Suggestions sg))"

section \<open>Properties of parseInstallString\<close>

lemmas install_eval =
  js_def parseInstallString_def normalize_installs_def toUpperCase_ascii_def upper_char_def
  keep_char_def is_digit_def is_space_def parseFloat_def parseInt_def digits_val_def
  exponent_of_def pow10_def Let_def

text \<open>
  C3: the installs parser should return a number or \<open>null\<close> and never \<open>NaN\<close>. On the
  text \<open>M\<close> the normalised form contains \<open>M\<close> and no digit; the \<open>M\<close> branch returns
  \<open>parseFloat('') * 1000000\<close>, which is \<open>NaN\<close>, where the last branch of the function
  returns \<open>null\<close> for a failed parse. The same happens on a text without digits such as
  \<open>Mobile downloads\<close>, whose normalised form is \<open>MB\<close>, and on \<open>k\<close>.
\<close>

theorem parseInstallString_M_is_NaN:
  "parseInstallString (Some (js ''M'')) = Some NaN \<and>
   parseInstallString (Some (js ''Mobile downloads'')) = Some NaN \<and>
   parseInstallString (Some (js ''k'')) = Some NaN"
  by (simp add: install_eval)

text \<open>
  The test vectors of the specification hold of the source, and of the algorithm in the
  words of the specification.
\<close>

lemma parseInstallString_test_vectors:
  "parseInstallString (Some (js ''1,000+'')) = Some (Fin 1000) \<and>
   parseInstallString (Some (js ''10M'')) = Some (Fin 10000000) \<and>
   parseInstallString (Some (js ''500K'')) = Some (Fin 500000) \<and>
   parseInstallString (Some (js '''')) = None \<and>
   parseInstallString None = None"
  by (simp add: install_eval)

lemma parseInstalls_spec_test_vectors:
  "parseInstalls_spec (Some (js ''1,000+'')) = Some (Fin 1000) \<and>
   parseInstalls_spec (Some (js ''10M'')) = Some (Fin 10000000) \<and>
   parseInstalls_spec (Some (js ''500K'')) = Some (Fin 500000) \<and>
   parseInstalls_spec (Some (js '''')) = None \<and>
   parseInstalls_spec None = None"
  by (simp add: install_eval parseInstalls_spec_def spec_keep_char_def)


section \<open>Properties of the record's installs field\<close>

text \<open>
  C10: the installs field of a record built from a detail page is \<open>null\<close> or a truthy
  number, so it is never \<open>0\<close> and never \<open>NaN\<close>.
\<close>

theorem make_record_installs_truthy:
  "installs (make_record pkg d) = None \<or>
   (\<exists>n. installs (make_record pkg d) = Some n \<and> truthy_num n \<and> n \<noteq> Fin 0 \<and> n \<noteq> NaN)"
proof (cases "parseInstallString (raw_installs d)")
  case None
  then show ?thesis by (simp add: make_record_def)
next
  case (Some n)
  then show ?thesis by (cases n) (auto simp: make_record_def)
qed

section \<open>Properties of cleanText\<close>

lemma collapse_ws_hd: "s \<noteq> [] \<Longrightarrow> \<not> is_space (hd s) \<Longrightarrow> collapse_ws s \<noteq> [] \<and> hd (collapse_ws s) = hd s"
  by (cases s) auto

lemma dropWhile_hd: "dropWhile P s \<noteq> [] \<Longrightarrow> \<not> P (hd (dropWhile P s))"
  by (simp add: hd_dropWhile)

lemma ws_normal_Cons_32: "ws_normal t \<Longrightarrow> (t \<noteq> [] \<Longrightarrow> \<not> is_space (hd t)) \<Longrightarrow> ws_normal (32 # t)"
  by (cases t) auto

lemma ws_normal_Cons_other: "ws_normal t \<Longrightarrow> \<not> is_space c \<Longrightarrow> ws_normal (c # t)"
  by (cases t) auto

lemma ws_normal_collapse: "ws_normal (collapse_ws s)"
proof (induction s rule: collapse_ws.induct)
  case 1
  show ?case by simp
next
  case (2 c cs)
  show ?case
  proof (cases "is_space c")
    case True
    let ?t = "dropWhile is_space cs"
    have "collapse_ws ?t \<noteq> [] \<Longrightarrow> \<not> is_space (hd (collapse_ws ?t))"
    proof -
      assume ne: "collapse_ws ?t \<noteq> []"
      then have "?t \<noteq> []" by (metis collapse_ws.simps(1))
      then have "\<not> is_space (hd ?t)" by (rule dropWhile_hd)
      with \<open>?t \<noteq> []\<close> show ?thesis using collapse_ws_hd by metis
    qed
    with 2 True show ?thesis by (simp add: ws_normal_Cons_32)
  next
    case False
    with 2 show ?thesis by (simp add: ws_normal_Cons_other)
  qed
qed

lemma ws_normal_tl: "ws_normal (c # cs) \<Longrightarrow> ws_normal cs"
  by (cases cs) auto

lemma collapse_ws_normal: "ws_normal s \<Longrightarrow> collapse_ws s = s"
proof (induction s rule: ws_normal.induct)
  case 1
  show ?case by simp
next
  case (2 c)
  then show ?case by simp
next
  case (3 c d cs)
  then show ?case by auto
qed

lemma ws_normal_suffix: "ws_normal (xs @ ys) \<Longrightarrow> ws_normal ys"
  by (induction xs) (auto dest: ws_normal_tl)

lemma ws_normal_prefix: "ws_normal (xs @ ys) \<Longrightarrow> ws_normal xs"
proof (induction xs rule: ws_normal.induct)
  case 1
  show ?case by simp
next
  case (2 c)
  then show ?case by (cases ys) auto
next
  case (3 c d cs)
  then show ?case by auto
qed

lemma ws_normal_dropWhile: "ws_normal s \<Longrightarrow> ws_normal (dropWhile P s)"
  using ws_normal_suffix [of "takeWhile P s" "dropWhile P s"] by simp

lemma rtrim_prefix: "rev (dropWhile P (rev s)) @ rev (takeWhile P (rev s)) = s"
proof -
  have "rev (takeWhile P (rev s) @ dropWhile P (rev s)) = s" by simp
  then show ?thesis by (simp only: rev_append)
qed

lemma ws_normal_trim: "ws_normal s \<Longrightarrow> ws_normal (trim s)"
  unfolding trim_def
  using ws_normal_prefix [of "rev (dropWhile is_space (rev (dropWhile is_space s)))"
        "rev (takeWhile is_space (rev (dropWhile is_space s)))"]
  by (simp add: rtrim_prefix ws_normal_dropWhile)

lemma trim_trim: "trim (trim s) = trim s"
proof -
  let ?y = "dropWhile is_space s"
  let ?z = "rev (dropWhile is_space (rev ?y))"
  have l: "dropWhile is_space ?z = ?z"
  proof (cases ?y)
    case Nil
    then have "?z = []" by (simp only: rev.simps dropWhile.simps)
    then show ?thesis by (simp only: dropWhile.simps)
  next
    case (Cons a y')
    then have "\<not> is_space a" using hd_dropWhile [of is_space s] by auto
    then have "dropWhile is_space (rev y' @ [a]) = dropWhile is_space (rev y') @ [a]"
      by (simp add: dropWhile_append3)
    with Cons \<open>\<not> is_space a\<close> show ?thesis by simp
  qed
  show ?thesis
    unfolding trim_def l by simp
qed

lemma set_collapse_ws: "c \<in> set (collapse_ws s) \<Longrightarrow> c = 32 \<or> (c \<in> set s \<and> \<not> is_space c)"
proof (induction s rule: collapse_ws.induct)
  case 1
  then show ?case by simp
next
  case (2 d ds)
  then show ?case
    by (auto split: if_splits dest: set_dropWhileD)
qed

lemma set_trim: "set (trim s) \<subseteq> set s"
  unfolding trim_def by (auto dest!: set_dropWhileD)

lemma zero_width_collapse:
  assumes "\<forall>c\<in>set s. c < 8203 \<or> 8205 < c"
  shows "filter (\<lambda>c. \<not> is_zero_width c) (collapse_ws s) = collapse_ws s"
proof -
  have "\<not> is_zero_width c" if "c \<in> set (collapse_ws s)" for c
  proof -
    from that have "c = 32 \<or> (c \<in> set s \<and> \<not> is_space c)" by (rule set_collapse_ws)
    with assms show ?thesis
      by (auto simp: is_zero_width_def is_space_def)
  qed
  then show ?thesis by (simp add: filter_id_conv)
qed

lemma cleanText_Some:
  "cleanText (Some s) = trim (filter (\<lambda>c. \<not> is_zero_width c) (collapse_ws s))"
  by (cases "s = []") (simp_all add: cleanText_def trim_def)

text \<open>
  On a string without the zero-width characters U+200B..U+200D the second pass changes
  nothing; \<open>null\<close> and the empty string give the empty string.
\<close>

lemma cleanText_idempotent_without_zero_width:
  assumes "\<forall>c\<in>set s. c < 8203 \<or> 8205 < c"
  shows "cleanText (Some (cleanText (Some s))) = cleanText (Some s) \<and>
         cleanText None = [] \<and> cleanText (Some []) = []"
proof -
  let ?u = "collapse_ws s"
  let ?t = "trim ?u"
  have f: "filter (\<lambda>c. \<not> is_zero_width c) ?u = ?u"
    using assms by (rule zero_width_collapse)
  have ct: "cleanText (Some s) = ?t"
    by (simp only: cleanText_Some f)
  have n: "ws_normal ?t"
    by (simp add: ws_normal_trim ws_normal_collapse)
  have "\<forall>c\<in>set ?t. c < 8203 \<or> 8205 < c"
  proof
    fix c assume "c \<in> set ?t"
    then have "c \<in> set ?u" using set_trim by blast
    then have "c = 32 \<or> (c \<in> set s \<and> \<not> is_space c)" by (rule set_collapse_ws)
    with assms show "c < 8203 \<or> 8205 < c" by auto
  qed
  then have "filter (\<lambda>c. \<not> is_zero_width c) (collapse_ws ?t) = collapse_ws ?t"
    by (rule zero_width_collapse)
  then have "cleanText (Some ?t) = ?t"
    using n by (simp only: cleanText_Some collapse_ws_normal trim_trim)
  with ct show ?thesis by (simp add: cleanText_def)
qed

text \<open>A zero-width character that has no white space on both sides does no harm either.\<close>

lemma cleanText_zero_width_inside_word:
  "cleanText (Some [97, 8203, 98]) = [97, 98] \<and>
   cleanText (Some (cleanText (Some [97, 8203, 98]))) = [97, 98]"
  by (simp add: cleanText_def trim_def is_space_def is_zero_width_def)

text \<open>
  C9: \<open>cleanText\<close> should be idempotent. The source collapses the white space before it
  removes the zero-width characters, so on \<open>a\<close>, space, U+200B, space, \<open>b\<close> the two spaces
  around the zero-width space are not adjacent when the white space is collapsed and both
  survive: the result has two spaces, and a second pass changes it to one.
\<close>

theorem cleanText_not_idempotent:
  "cleanText (Some [97, 32, 8203, 32, 98]) = [97, 32, 32, 98] \<and>
   cleanText (Some (cleanText (Some [97, 32, 8203, 32, 98]))) = [97, 32, 98]"
  by (simp add: cleanText_def trim_def is_space_def is_zero_width_def)

section \<open>Properties of the difficulty\<close>

lemma floor_rat_numeral: "\<lfloor>numeral a / numeral b :: rat\<rfloor> = numeral a div numeral b"
  using floor_divide_of_int_eq [of "numeral a" "numeral b", where ?'a = rat] by simp

lemma fallback_in_range:
  assumes "jsle (Fin 0) score"
  shows "\<exists>n::int. jsmin (Fin 100) (jsmax (Fin 1) (jsround (jsdiv (Fin 50) (jsadd (Fin 1) score))))
            = Fin (of_int n) \<and> 1 \<le> n \<and> n \<le> 100"
proof (cases score)
  case NaN
  with assms show ?thesis by simp
next
  case PInf
  have "jsmin (Fin 100) (jsmax (Fin 1) (jsround (jsdiv (Fin 50) (jsadd (Fin 1) PInf)))) = Fin (of_int 1)"
    by simp
  with PInf show ?thesis by force
next
  case NInf
  with assms show ?thesis by simp
next
  case (Fin s)
  with assms have s: "0 \<le> s" by simp
  define k where "k = \<lfloor>50 / (1 + s) + 1 / 2\<rfloor>"
  let ?n = "min 100 (max 1 k)"
  have "jsmin (Fin 100) (jsmax (Fin 1) (jsround (jsdiv (Fin 50) (jsadd (Fin 1) (Fin s)))))
      = Fin (of_int ?n)"
    using s by (auto simp: k_def)
  moreover have "1 \<le> ?n \<and> ?n \<le> 100" by simp
  ultimately show ?thesis using Fin by blast
qed

lemma round_min_100:
  fixes r :: rat
  assumes "0 \<le> r"
  shows "0 \<le> \<lfloor>min 100 r + 1 / 2\<rfloor> \<and> \<lfloor>min 100 r + 1 / 2\<rfloor> \<le> 100"
proof -
  have "0 \<le> min 100 r + 1 / 2" using assms by simp
  then have a: "0 \<le> \<lfloor>min 100 r + 1 / 2\<rfloor>" by simp
  have "min 100 r + 1 / 2 < 101" by simp
  then have "\<lfloor>min 100 r + 1 / 2\<rfloor> < 101" by (simp add: floor_less_iff)
  with a show ?thesis by simp
qed

text \<open>
  C2: for a score and an average of installs that are both at least 0 (finite or
  \<open>Infinity\<close>), the difficulty is an integer between 1 and 100.
\<close>

theorem difficulty_in_range:
  assumes "jsle (Fin 0) score" and "jsle (Fin 0) avgInstalls"
  shows "\<exists>n::int. difficulty_of avgInstalls score = Fin (of_int n) \<and> 1 \<le> n \<and> n \<le> 100"
proof -
  let ?fb = "jsmin (Fin 100) (jsmax (Fin 1) (jsround (jsdiv (Fin 50) (jsadd (Fin 1) score))))"
  let ?scale = "jsmax (Fin 1) (jsdiv avgInstalls (Fin 100000))"
  let ?raw = "jsdiv (jsdiv avgInstalls (jsadd (Fin 1) score)) (jsmax (Fin 1) ?scale)"
  let ?d = "jsround (jsmin (Fin 100) ?raw)"
  have fb: "\<exists>n::int. ?fb = Fin (of_int n) \<and> 1 \<le> n \<and> n \<le> 100"
    using assms(1) by (rule fallback_in_range)
  have d: "difficulty_of avgInstalls score = (if \<not> isFinite ?d \<or> jsle ?d (Fin 0) then ?fb else ?d)"
    by (simp add: difficulty_of_def Let_def)
  have "\<not> isFinite ?d \<or> (\<exists>k::int. ?d = Fin (of_int k) \<and> 0 \<le> k \<and> k \<le> 100)"
  proof (cases "?raw")
    case (Fin r)
    have "0 \<le> r"
    proof (cases avgInstalls)
      case a: (Fin a)
      with assms have a0: "0 \<le> a" by simp
      show ?thesis
      proof (cases score)
        case s: (Fin s)
        with assms have "0 \<le> s" by simp
        with a s a0 Fin show ?thesis
          by (auto simp: split: if_splits)
      next
        case PInf
        with a Fin show ?thesis by (auto split: if_splits)
      qed (use assms in auto)
    next
      case PInf
      with Fin show ?thesis by (cases score) (auto split: if_splits)
    qed (use assms in auto)
    then have "0 \<le> \<lfloor>min 100 r + 1 / 2\<rfloor> \<and> \<lfloor>min 100 r + 1 / 2\<rfloor> \<le> 100"
      by (rule round_min_100)
    moreover have "?d = Fin (of_int \<lfloor>min 100 r + 1 / 2\<rfloor>)"
      unfolding Fin by (simp add: min_def)
    ultimately show ?thesis by blast
  next
    case NaN
    then show ?thesis by simp
  next
    case PInf
    then have "?d = Fin (of_int 100)" by (simp add: floor_rat_numeral)
    then show ?thesis by force
  next
    case NInf
    then show ?thesis by simp
  qed
  then show ?thesis
  proof
    assume "\<not> isFinite ?d"
    with d fb show ?thesis by simp
  next
    assume "\<exists>k::int. ?d = Fin (of_int k) \<and> 0 \<le> k \<and> k \<le> 100"
    then obtain k :: int where k: "?d = Fin (of_int k)" "0 \<le> k" "k \<le> 100" by blast
    show ?thesis
    proof (cases "k = 0")
      case True
      with k d fb show ?thesis by simp
    next
      case False
      with k have "1 \<le> k" by simp
      moreover from False k d have "difficulty_of avgInstalls score = Fin (of_int k)"
        by simp
      ultimately show ?thesis using k by blast
    qed
  qed
qed

theorem difficulty_in_range_witness:
  "(\<exists>n::int. difficulty_of (Fin 0) (Fin 9) = Fin (of_int n) \<and> 1 \<le> n \<and> n \<le> 100) \<and>
   difficulty_of (Fin 0) (Fin 9) = Fin 5 \<and>
   difficulty_of (Fin 5000000) (Fin 9) = Fin 100 \<and>
   difficulty_of (Fin 1000) (Fin 9) = Fin 100 \<and>
   difficulty_of (Fin 1000) (Fin 99) = Fin 10 \<and>
   difficulty_of PInf (Fin 9) = Fin 5 "
  using difficulty_in_range [of "Fin 9" "Fin 0"]
  by (simp add: difficulty_of_def Let_def floor_rat_numeral)

section \<open>Properties of the keyword frequencies\<close>

lemma map_of_freq_set: "map_of (freq_set m k v) = (map_of m)(k \<mapsto> v)"
  by (induction m) (auto simp: fun_eq_iff)

lemma map_of_freq_add: "map_of (freq_add m k w) = (map_of m)(k \<mapsto> freq_get m k + w)"
  by (simp add: freq_add_def map_of_freq_set)

lemma freq_get_freq_add:
  "freq_get (freq_add m k w) t = (if t = k then freq_get m k + w else freq_get m t)"
  by (simp add: freq_get_def map_of_freq_add)

lemma map_of_seed_boost:
  "map_of (seed_boost ts m) t =
     (if 3 \<le> length t \<and> t \<in> set ts then Some (freq_get m t + 6 * count_list ts t)
      else map_of m t)"
proof (induction ts arbitrary: m)
  case Nil
  show ?case by simp
next
  case (Cons a ts)
  show ?case
  proof (cases "3 \<le> length a")
    case True
    then show ?thesis
      by (auto simp: Cons.IH freq_get_freq_add map_of_freq_add TITLE_BOOST_def)
  next
    case False
    then show ?thesis
      by (auto simp: Cons.IH)
  qed
qed

lemmas freq_eval =
  frequency_map_def baseTokens_def split_ws_def trim_def is_space_def js_def
  toLowerCase_ascii_def lower_char_def freq_add_def freq_get_def TITLE_BOOST_def

text \<open>
  C6: after the competitors have been aggregated, the entry of a token \<open>t\<close> of the seed
  keyword with at least 3 characters is its score before plus 6 for each occurrence of
  \<open>t\<close> among the seed tokens, whether or not \<open>t\<close> is a stopword; every other entry is
  unchanged. The seed \<open>the app\<close> with no competitor gives \<open>the\<close> and \<open>app\<close>, each with
  score 6.
\<close>

theorem seed_tokens_weight_six:
  "map_of (frequency_map lc keyword results) t =
     (if 3 \<le> length t \<and> t \<in> set (baseTokens lc keyword)
      then Some (freq_get (aggregate lc results []) t + 6 * count_list (baseTokens lc keyword) t)
      else map_of (aggregate lc results []) t) \<and>
   frequency_map toLowerCase_ascii (js ''the app'') [] = [(js ''the'', 6), (js ''app'', 6)]"
proof -
  have "frequency_map toLowerCase_ascii (js ''the app'') [] = [(js ''the'', 6), (js ''app'', 6)]"
    by (simp add: freq_eval)
  then show ?thesis
    by (simp add: frequency_map_def map_of_seed_boost)
qed

section \<open>Properties of the candidate extraction\<close>

lemma match_href_nonempty: "match_href s = Some m \<Longrightarrow> m \<noteq> []"
  by (induction s) (auto simp: Let_def split: if_splits)

lemma anchor_pass_foldl:
  "anchor_pass limit hrefs pk = foldl (lim_add limit) pk (List.map_filter href_id hrefs)"
proof (induction hrefs arbitrary: pk)
  case Nil
  show ?case by (simp add: List.map_filter_simps)
next
  case (Cons h hs)
  show ?case
  proof (cases "href_id h")
    case None
    then show ?thesis
      by (auto simp: Cons.IH List.map_filter_simps href_id_def split: if_splits option.splits)
  next
    case (Some m)
    then have "m \<noteq> []"
      by (auto simp: href_id_def dest: match_href_nonempty split: if_splits)
    with Some show ?thesis
      by (auto simp: Cons.IH List.map_filter_simps href_id_def lim_add_def split: if_splits)
  qed
qed

lemma foldl_lim_add_full: "limit \<le> length pk \<Longrightarrow> foldl (lim_add limit) pk xs = pk"
  by (induction xs) (simp_all add: lim_add_def)

lemma regex_pass_foldl: "regex_pass limit ms pk = foldl (lim_add limit) pk ms"
proof (induction ms arbitrary: pk)
  case Nil
  show ?case by simp
next
  case (Cons m ms)
  show ?case
  proof (cases "length pk < limit")
    case True
    then show ?thesis by (simp add: Cons.IH lim_add_def)
  next
    case False
    then have "limit \<le> length pk" by simp
    then have "foldl (lim_add limit) pk (m # ms) = pk" by (rule foldl_lim_add_full)
    with False show ?thesis by simp
  qed
qed

lemma first_seen_snoc:
  "rev (remdups (rev (xs @ [x]))) = set_add (rev (remdups (rev xs))) x"
  by (simp add: set_add_def)

lemma take_set_add_full: "limit \<le> length ys \<Longrightarrow> take limit (set_add ys x) = take limit ys"
  by (simp add: set_add_def)

lemma length_set_add: "length (set_add ys x) \<le> Suc (length ys)"
  by (simp add: set_add_def)

lemma foldl_lim_add_first_seen:
  "foldl (lim_add limit) [] xs = take limit (rev (remdups (rev xs)))"
proof (induction xs rule: rev_induct)
  case Nil
  show ?case by simp
next
  case (snoc x xs)
  let ?F = "rev (remdups (rev xs))"
  have step: "foldl (lim_add limit) [] (xs @ [x]) = lim_add limit (take limit ?F) x"
    by (simp only: foldl_append foldl.simps snoc.IH)
  show ?case
  proof (cases "limit \<le> length ?F")
    case True
    then have "lim_add limit (take limit ?F) x = take limit ?F"
      by (simp add: lim_add_def)
    also have "\<dots> = take limit (set_add ?F x)"
      using True by (simp only: take_set_add_full)
    finally show ?thesis
      by (simp only: step first_seen_snoc)
  next
    case False
    then have t: "take limit ?F = ?F" by simp
    have "length (set_add ?F x) \<le> limit"
      using False length_set_add [of ?F x] by linarith
    then have "take limit (set_add ?F x) = set_add ?F x" by simp
    moreover have "lim_add limit ?F x = set_add ?F x"
      using False by (simp add: lim_add_def)
    ultimately show ?thesis
      by (simp only: step t first_seen_snoc)
  qed
qed

lemma extract_packages_first_seen:
  "extract_packages limit hrefs html =
     take limit (rev (remdups (rev (List.map_filter href_id hrefs @ scan_ids html))))"
proof -
  let ?pk = "foldl (lim_add limit) [] (List.map_filter href_id hrefs)"
  let ?pk' = "foldl (lim_add limit) ?pk (scan_ids html)"
  have "(if length ?pk < limit then ?pk' else ?pk) = ?pk'"
  proof (cases "length ?pk < limit")
    case True
    then show ?thesis by simp
  next
    case False
    then have "limit \<le> length ?pk" by simp
    then have "?pk' = ?pk" by (rule foldl_lim_add_full)
    then show ?thesis by simp
  qed
  then have "extract_packages limit hrefs html = take limit ?pk'"
    by (simp only: extract_packages_def Let_def anchor_pass_foldl regex_pass_foldl)
  also have "?pk' = foldl (lim_add limit) [] (List.map_filter href_id hrefs @ scan_ids html)"
    by simp
  finally show ?thesis
    by (simp only: foldl_lim_add_first_seen take_take min.idem)
qed

text \<open>
  C1: the extraction returns at most \<open>limit\<close> identifiers, without duplicates, and they
  are the first \<open>limit\<close> distinct identifiers of the anchor scan followed by the scan of
  the raw markup, in the order of their first appearance; with no anchor and empty markup
  the result is empty.
\<close>

theorem extract_packages_bounded_distinct_ordered:
  "length (extract_packages limit hrefs html) \<le> limit \<and>
   distinct (extract_packages limit hrefs html) \<and>
   extract_packages limit hrefs html =
     take limit (rev (remdups (rev (List.map_filter href_id hrefs @ scan_ids html)))) \<and>
   extract_packages limit [] [] = []"
proof -
  have "distinct (take limit (rev (remdups (rev (List.map_filter href_id hrefs @ scan_ids html)))))"
    by (rule distinct_take) simp
  then show ?thesis
    by (simp add: extract_packages_first_seen List.map_filter_simps)
qed

text \<open>
  Three anchors with the same identifier and one with another, found again by the scan of
  the raw markup: two identifiers, in the order in which they were first seen.
\<close>

lemma extract_packages_example:
  "extract_packages 10
     [Some (js ''/store/apps/details?id=a.b''), Some (js ''/store/apps/details?id=a.b&hl=en''),
      Some (js ''/store/apps/details?id=a.b''), Some (js ''/store/apps/details?id=c.d'')]
     (js ''/store/apps/details?id=a.b /store/apps/details?id=a.b&hl=en /store/apps/details?id=a.b /store/apps/details?id=c.d'')
   = [js ''a.b'', js ''c.d'']"
  by (simp add: extract_packages_def details_prefix_def js_def is_word_dot_def is_digit_def
      set_add_def Let_def)

section \<open>Properties of the detail loop\<close>

lemma detail_loop_concat:
  "detail_loop fetch pkgs results =
     results @ concat (map (\<lambda>pkg. process_candidate pkg (fetch pkg)) pkgs)"
  by (induction pkgs arbitrary: results) simp_all

text \<open>
  When no \<open>detailPage.close()\<close> throws after its record was pushed, the loop pushes one
  record for each package, in the order of the packages: the record of the detail page, or
  the degraded record when the extraction threw.
\<close>

lemma process_candidate_closes:
  "closes (fetch pkg) \<Longrightarrow>
   process_candidate pkg (fetch pkg) =
     [case fetch pkg of Extracted d \<Rightarrow> make_record pkg d | _ \<Rightarrow> degraded_record pkg]"
  by (cases "fetch pkg") simp_all

lemma detail_loop_one_record_each:
  assumes "list_all (\<lambda>pkg. closes (fetch pkg)) pkgs"
  shows "detail_loop fetch pkgs [] =
     map (\<lambda>pkg. case fetch pkg of Extracted d \<Rightarrow> make_record pkg d | _ \<Rightarrow> degraded_record pkg) pkgs"
  using assms
  by (induction pkgs) (simp_all add: detail_loop_concat process_candidate_closes)

lemma package_of_record:
  "package (case out of Extracted d \<Rightarrow> make_record pkg d | _ \<Rightarrow> degraded_record pkg) = pkg"
  by (cases out) (simp_all add: make_record_def degraded_record_def)

lemma detail_loop_packages:
  assumes "list_all (\<lambda>pkg. closes (fetch pkg)) pkgs"
  shows "map package (detail_loop fetch pkgs []) = pkgs"
  by (simp add: detail_loop_one_record_each [OF assms] package_of_record comp_def)

lemma competitors_rank:
  "i < length results \<Longrightarrow>
   rank (competitors results ! i) = i + 1 \<and> r_package (competitors results ! i) = package (results ! i)"
  by (simp add: competitors_def nth_enumerate_eq)

lemmas rec_eval = make_record_def degraded_record_def final_title_def final_rating_def cleanText_def trim_def
  is_zero_width_def install_eval

text \<open>
  C7: every candidate should leave one record. When the detail page of a candidate is read
  and its record is pushed, and \<open>detailPage.close()\<close> then throws, the \<open>catch\<close> block
  pushes the degraded record as well: one candidate leaves two records.
\<close>

theorem close_failure_pushes_two_records:
  "detail_loop
     (\<lambda>pkg. ExtractedCloseThrows
        \<lparr> meta_title = Some (js ''A''), raw_description = Some (js ''d''),
          raw_installs = Some (js ''10M''), raw_rating = Some (js ''4.5''),
          meta_developer = Some (js ''D'') \<rparr>)
     [js ''com.a''] [] =
   [\<lparr> package = js ''com.a'', title = js ''A'', description = js ''d'',
      installs = Some (Fin 10000000), rating = Some (Fin (9 / 2)), developer = Some (js ''D'') \<rparr>,
    \<lparr> package = js ''com.a'', title = js ''com.a'', description = [], installs = None,
      rating = None, developer = None \<rparr>]"
  by (simp add: rec_eval)

text \<open>
  C8: the rank of a competitor should be the position of its candidate. With the packages
  \<open>a\<close> and \<open>b\<close>, where closing the page of \<open>a\<close> throws after its record was pushed,
  \<open>a\<close> has the ranks 1 and 2 and \<open>b\<close>, the second candidate, has rank 3.
\<close>

theorem close_failure_shifts_ranks:
  "map (\<lambda>c. (rank c, r_package c))
     (competitors
        (detail_loop (\<lambda>pkg. if pkg = js ''a'' then ExtractedCloseThrows d else Extracted d)
           [js ''a'', js ''b''] [])) =
   [(1, js ''a''), (2, js ''a''), (3, js ''b'')]"
  by (simp add: competitors_def make_record_def degraded_record_def js_def)

section \<open>Properties of the suggestion endpoint\<close>

lemmas json_eval =
  JSON_parse_def js_def is_json_ws_def is_digit_def lex_number_def exponent_lexeme_def
  hex4_def hex_val_def unescape_def pstep_def start_value_def close_array_def
  close_object_def set_key_def parseFloat_def is_space_def digits_val_def exponent_of_def
  pow10_def Let_def

lemmas suggest_eval =
  suggest_of_text_def suggest_fallback_def second_or_empty_def group_at_def
  is_line_terminator_def

text \<open>A text that parses to a value other than \<open>null\<close> is answered from the value.\<close>

lemma suggest_of_parsed:
  "JSON_parse txt = Some data \<Longrightarrow> second_or_empty data = Some sg \<Longrightarrow>
   suggest_of_text txt = Suggestions sg"
  by (simp add: suggest_of_text_def)

text \<open>A text that does not parse and that the regular expression does not match gives no suggestion.\<close>

lemma suggest_of_unmatched:
  "JSON_parse txt = None \<Longrightarrow> suggest_match txt = None \<Longrightarrow>
   suggest_of_text txt = Suggestions (JArr [])"
  by (simp add: suggest_of_text_def suggest_fallback_def)

lemma suggest_of_matched:
  "JSON_parse txt = None \<Longrightarrow> suggest_match txt = Some m1 \<Longrightarrow> JSON_parse m1 = Some v \<Longrightarrow>
   suggest_of_text txt = Suggestions v"
  by (simp add: suggest_of_text_def suggest_fallback_def)

lemma suggest_of_json_example:
  "suggest_of_text (js ''[\"q\",[\"a\",\"b\"]]'') = Suggestions (JArr [JStr (js ''a''), JStr (js ''b'')])"
  by (simp add: suggest_eval json_eval)

lemma suggest_of_wrapped_example:
  "suggest_of_text (js ''x([\"q\",[\"a\",\"b\"]])'') = Suggestions (JArr [JStr (js ''a''), JStr (js ''b'')])"
  by (simp add: suggest_eval json_eval)

lemma suggest_of_html_example:
  "suggest_of_text (js ''<html>error</html>'') = Suggestions (JArr [])"
  by (simp add: suggest_eval json_eval)

text \<open>
  C4: a text for which both the JSON parse and the fallback fail should give an empty list
  of suggestions. The text \<open>x(["q",[["a",0]]])\<close> is not JSON; the regular expression
  matches it with the group \<open>[["a",0]\<close>, which is not JSON either; the \<open>JSON.parse\<close> of
  the \<open>catch\<close> block throws, and the handler answers with status 500.
\<close>

theorem suggest_fallback_parse_failure:
  "suggest_of_text (js ''x([\"q\",[[\"a\",0]]])'') = SuggestFailed"
  by (simp add: suggest_eval json_eval)

end
